theory Spec2Isabelle
  imports Complex_Main "HOL-Library.Log_Nat"
begin

section \<open>The Emberstone Legacy: combat core of game.py\<close>

text \<open>
  A shallow embedding of the classes \<open>Item\<close>, \<open>Enemy\<close>, \<open>Player\<close> and of the function
  \<open>start_combat\<close> of \<^verbatim>\<open>src/game.py\<close>. Python's unbounded integers are \<open>int\<close>,
  strings are \<open>string\<close>, objects are records, and every mutation is explicit state
  passing. An exception is a value of \<open>py_error\<close>.
\<close>

datatype py_error = EOFError | TypeError | ValueError | OverflowError

subsection \<open>Python floats\<close>

text \<open>
  A finite Python float is an IEEE 754 double, modelled by the rational number it
  denotes. \<open>round_double\<close> rounds a rational to the nearest double (ties to even, 53
  significant bits, subnormals below \<open>2^-1022\<close>); the overflow threshold is applied by
  the operations that use it.
\<close>

definition pow2 :: "int \<Rightarrow> rat" where
  "pow2 e = (if 0 \<le> e then 2 ^ nat e else 1 / 2 ^ nat (- e))"

definition ilog2 :: "rat \<Rightarrow> int" where
  \<comment> \<open>\<open>\<lfloor>log\<^sub>2 \<bar>x\<bar>\<rfloor>\<close> for \<open>x \<noteq> 0\<close>\<close>
  "ilog2 x = (case quotient_of \<bar>x\<bar> of (p, q) \<Rightarrow>
     (let e = bitlen p - bitlen q in if pow2 e \<le> \<bar>x\<bar> then e else e - 1))"

definition round_half_even :: "rat \<Rightarrow> int" where
  "round_half_even q = (let f = \<lfloor>q\<rfloor>; d = q - of_int f in
     if d < 1 / 2 then f else if 1 / 2 < d then f + 1 else if even f then f else f + 1)"

definition round_double :: "rat \<Rightarrow> rat" where
  "round_double x = (if x = 0 then 0 else
     (let u = pow2 (max (ilog2 x) (- 1022) - 52) in of_int (round_half_even (x / u)) * u))"

definition dbl_max :: rat where
  "dbl_max = (2 ^ 53 - 1) * 2 ^ 971"

datatype pyfloat = Finite rat | PosInf | NegInf

definition int_to_float :: "int \<Rightarrow> py_error + rat" where
  \<comment> \<open>the implicit \<open>float(n)\<close> of \<open>n * 0.015\<close>: correctly rounded, OverflowError when too large\<close>
  "int_to_float n = (let r = round_double (of_int n) in
     if dbl_max < \<bar>r\<bar> then Inl OverflowError else Inr r)"

definition float_mul :: "rat \<Rightarrow> rat \<Rightarrow> pyfloat" where
  \<comment> \<open>the product of two finite floats; overflow gives an infinity, not an exception\<close>
  "float_mul a b = (let r = round_double (a * b) in
     if dbl_max < r then PosInf else if r < - dbl_max then NegInf else Finite r)"

definition int_mul_float :: "int \<Rightarrow> rat \<Rightarrow> py_error + pyfloat" where
  \<comment> \<open>\<open>n * c\<close> for an int \<open>n\<close> and a finite float \<open>c\<close>\<close>
  "int_mul_float n c = (case int_to_float n of Inl err \<Rightarrow> Inl err | Inr x \<Rightarrow> Inr (float_mul x c))"

fun float_lt :: "pyfloat \<Rightarrow> pyfloat \<Rightarrow> bool" where
  "float_lt (Finite a) (Finite b) = (a < b)"
| "float_lt (Finite a) PosInf = True"
| "float_lt (Finite a) NegInf = False"
| "float_lt PosInf b = False"
| "float_lt NegInf (Finite b) = True"
| "float_lt NegInf PosInf = True"
| "float_lt NegInf NegInf = False"

definition float_to_int :: "pyfloat \<Rightarrow> py_error + int" where
  \<comment> \<open>\<open>int(x)\<close>: truncation toward zero; \<open>int(inf)\<close> raises OverflowError\<close>
  "float_to_int x = (case x of
       Finite r \<Rightarrow> Inr (if 0 \<le> r then \<lfloor>r\<rfloor> else \<lceil>r\<rceil>)
     | PosInf \<Rightarrow> Inl OverflowError
     | NegInf \<Rightarrow> Inl OverflowError)"

text \<open>The float literals of the source, each the double nearest to its decimal.\<close>

definition float_0_015 :: rat where "float_0_015 = round_double (15 / 1000)"
definition float_0_01 :: rat where "float_0_01 = round_double (1 / 100)"
definition float_1_8 :: rat where "float_1_8 = round_double (18 / 10)"

subsection \<open>The random module\<close>

text \<open>
  The generator is a state with two streams, one consumed by the successive calls of
  \<open>random.randint\<close> and one by those of \<open>random.random\<close>. \<open>randint(a, b)\<close> returns an
  integer \<open>N\<close> with \<open>a \<le> N \<le> b\<close>: the next value of its stream when that lies in the
  range, as the patched \<open>randint\<close> of the tests returns it, and that value reduced into
  the range otherwise. Every call of the source has literal bounds with \<open>a \<le> b\<close>, so the
  ValueError of an empty range does not arise. \<open>random()\<close> returns the next value of
  its stream. Every run of the program is the run of the model on the streams of the
  values its generator returned.
\<close>

record rng =
  randint_draws :: "nat \<Rightarrow> int"
  randint_count :: nat
  random_draws :: "nat \<Rightarrow> rat"
  random_count :: nat

definition randint :: "int \<Rightarrow> int \<Rightarrow> rng \<Rightarrow> int \<times> rng" where
  "randint a b g =
     (a + (randint_draws g (randint_count g) - a) mod (b - a + 1),
      g\<lparr>randint_count := Suc (randint_count g)\<rparr>)"

definition random :: "rng \<Rightarrow> rat \<times> rng" where
  "random g = (random_draws g (random_count g), g\<lparr>random_count := Suc (random_count g)\<rparr>)"

subsection \<open>Item\<close>

text \<open>
  An effect is the tuple of the source: \<open>('heal', 25)\<close> is \<open>Effect2 ''heal'' 25\<close> and
  \<open>('boost', 'strength', 2)\<close> is \<open>Effect3 ''boost'' ''strength'' 2\<close>; \<open>effect=None\<close>
  is \<open>None\<close>. \<open>Item\<close> defines no \<open>__eq__\<close>, so Python compares items by identity:
  \<open>oid\<close> is the identity of the object, and two items are equal in the model exactly
  when they are the same object.
\<close>

datatype effect = Effect2 string int | Effect3 string string int

record item =
  oid :: nat
  name :: string
  description :: string
  item_type :: string
  effect :: "effect option"

definition Item :: "nat \<Rightarrow> string \<Rightarrow> string \<Rightarrow> string \<Rightarrow> effect option \<Rightarrow> item" where
  \<comment> \<open>\<open>Item(name, description, item_type, effect)\<close>, allocated as object \<open>i\<close>\<close>
  "Item i n d t e = \<lparr>oid = i, name = n, description = d, item_type = t, effect = e\<rparr>"

subsection \<open>Enemy\<close>

record enemy =
  name :: string
  max_hp :: int
  hp :: int
  strength :: int
  agility :: int
  magic :: int
  description :: string

definition Enemy :: "string \<Rightarrow> int \<Rightarrow> int \<Rightarrow> int \<Rightarrow> int \<Rightarrow> string \<Rightarrow> enemy" where
  "Enemy n h s a m d = \<lparr>enemy.name = n, max_hp = h, hp = h, strength = s, agility = a,
     magic = m, description = d\<rparr>"


definition enemy_take_damage :: "enemy \<Rightarrow> int \<Rightarrow> enemy" where
  "enemy_take_damage self damage =
     (let self = self\<lparr>enemy.hp := enemy.hp self - damage\<rparr>
      in if enemy.hp self < 0 then self\<lparr>enemy.hp := 0\<rparr> else self)"

subsection \<open>Player\<close>

record stats =
  strength :: int
  agility :: int
  magic :: int

record player =
  name :: string
  char_class :: string
  stats :: stats
  max_hp :: int
  hp :: int
  max_mp :: int
  mp :: int
  inventory :: "item list"
  is_defending :: bool

definition Player :: "string \<Rightarrow> player" where
  "Player n = \<lparr>player.name = n, char_class = '''',
     stats = \<lparr>stats.strength = 0, stats.agility = 0, stats.magic = 0\<rparr>,
     player.max_hp = 100, player.hp = 100, max_mp = 50, mp = 50,
     inventory = [], is_defending = False\<rparr>"

definition health_potion :: "nat \<Rightarrow> item" where
  "health_potion i = Item i ''Health Potion'' ''Restores 25 HP.'' ''potion'' (Some (Effect2 ''heal'' 25))"

definition setup_class :: "player \<Rightarrow> string \<Rightarrow> nat \<Rightarrow> player" where
  \<comment> \<open>\<open>fresh\<close> is the first unused object identity; each \<open>Item(...)\<close> takes the next one\<close>
  "setup_class self cls fresh =
     (let self = self\<lparr>char_class := cls\<rparr>;
          (self, fresh) =
            (if cls = ''Guardian'' then
               (self\<lparr>stats := \<lparr>stats.strength = 15, stats.agility = 8, stats.magic = 5\<rparr>,
                  player.max_hp := 120, player.hp := 120, max_mp := 30, mp := 30,
                  inventory := inventory self @
                    [Item fresh ''Soldier's Sword'' ''A reliable steel sword.'' ''weapon''
                       (Some (Effect3 ''boost'' ''strength'' 2))]\<rparr>, fresh + 1)
             else if cls = ''Mage'' then
               (self\<lparr>stats := \<lparr>stats.strength = 6, stats.agility = 10, stats.magic = 18\<rparr>,
                  player.max_hp := 80, player.hp := 80, max_mp := 80, mp := 80,
                  inventory := inventory self @
                    [Item fresh ''Apprentice Staff'' ''A smooth wooden staff, warm to the touch.''
                       ''weapon'' (Some (Effect3 ''boost'' ''magic'' 2))]\<rparr>, fresh + 1)
             else if cls = ''Shadow'' then
               (self\<lparr>stats := \<lparr>stats.strength = 10, stats.agility = 16, stats.magic = 10\<rparr>,
                  player.max_hp := 90, player.hp := 90, max_mp := 50, mp := 50,
                  inventory := inventory self @
                    [Item fresh ''Twin Daggers'' ''A pair of sharp, quiet daggers.'' ''weapon''
                       (Some (Effect3 ''boost'' ''agility'' 2))]\<rparr>, fresh + 1)
             else (self, fresh))
      in self\<lparr>inventory := inventory self @ [health_potion fresh, health_potion (fresh + 1)]\<rparr>)"


definition player_take_damage :: "player \<Rightarrow> int \<Rightarrow> player" where
  "player_take_damage self damage =
     (let self = self\<lparr>player.hp := player.hp self - damage\<rparr>
      in if player.hp self < 0 then self\<lparr>player.hp := 0\<rparr> else self)"

text \<open>
  \<open>use_item\<close> returns nothing; what it tells the user it prints. The model returns the
  lines it printed. It also returns the player together with the exception, if any:
  \<open>list.remove\<close> raises ValueError after the health or mana has been changed.
\<close>

definition list_remove :: "'a list \<Rightarrow> 'a \<Rightarrow> py_error + 'a list" where
  \<comment> \<open>\<open>xs.remove(x)\<close>: the first element equal to \<open>x\<close> goes, ValueError when there is none\<close>
  "list_remove xs x = (if x \<in> set xs then Inr (remove1 x xs) else Inl ValueError)"

fun str_nat :: "nat \<Rightarrow> string" where
  "str_nat n = (if n < 10 then [''0123456789'' ! n]
     else str_nat (n div 10) @ [''0123456789'' ! (n mod 10)])"

definition str_int :: "int \<Rightarrow> string" where
  "str_int i = (if i < 0 then CHR ''-'' # str_nat (nat (- i)) else str_nat (nat i))"

fun effect_0 :: "effect \<Rightarrow> string" where
  "effect_0 (Effect2 k n) = k"
| "effect_0 (Effect3 k a n) = k"

definition use_item :: "player \<Rightarrow> item \<Rightarrow> py_error option \<times> player \<times> string list" where
  "use_item self it =
     (if item_type it \<noteq> ''potion'' then
        (None, self, [''You can't 'use' '' @ item.name it @ '' right now.''])
      else case effect it of
        None \<Rightarrow> (Some TypeError, self, [])
      | Some eff \<Rightarrow>
          if effect_0 eff = ''heal'' then
            (if player.hp self = player.max_hp self then
               (None, self, [''Your health is already full!''])
             else case eff of
               Effect3 k a n \<Rightarrow> (Some TypeError, self, [])
             | Effect2 k heal_amount \<Rightarrow>
                 (let self = self\<lparr>player.hp := player.hp self + heal_amount\<rparr>;
                      self = (if player.max_hp self < player.hp self
                              then self\<lparr>player.hp := player.max_hp self\<rparr> else self);
                      out = [player.name self @ '' uses a '' @ item.name it @ '' and restores ''
                               @ str_int heal_amount @ '' HP.'',
                             ''You now have '' @ str_int (player.hp self) @ ''/''
                               @ str_int (player.max_hp self) @ '' HP.'']
                  in case list_remove (inventory self) it of
                       Inl err \<Rightarrow> (Some err, self, out)
                     | Inr items \<Rightarrow> (None, self\<lparr>inventory := items\<rparr>, out)))
          else if effect_0 eff = ''mana'' then
            (if mp self = max_mp self then
               (None, self, [''Your mana is already full!''])
             else case eff of
               Effect3 k a n \<Rightarrow> (Some TypeError, self, [])
             | Effect2 k mana_amount \<Rightarrow>
                 (let self = self\<lparr>mp := mp self + mana_amount\<rparr>;
                      self = (if max_mp self < mp self then self\<lparr>mp := max_mp self\<rparr> else self);
                      out = [player.name self @ '' uses a '' @ item.name it @ '' and restores ''
                               @ str_int mana_amount @ '' MP.'',
                             ''You now have '' @ str_int (mp self) @ ''/''
                               @ str_int (max_mp self) @ '' MP.'']
                  in case list_remove (inventory self) it of
                       Inl err \<Rightarrow> (Some err, self, out)
                     | Inr items \<Rightarrow> (None, self\<lparr>inventory := items\<rparr>, out)))
          else (None, self, []))"

text \<open>
  The console output of the functions below (\<open>type_text\<close>, \<open>print\<close>) and their pauses
  change neither the state nor the control flow and are left out.
\<close>

definition player_attack :: "player \<Rightarrow> enemy \<Rightarrow> rng \<Rightarrow> py_error + (enemy \<times> rng)" where
  "player_attack self target g =
     (case int_mul_float (stats.agility (stats self)) float_0_015 of
        Inl err \<Rightarrow> Inl err
      | Inr crit_chance \<Rightarrow>
          (case randint (- 2) 5 g of (r, g) \<Rightarrow>
             (let base_damage = stats.strength (stats self) + r in
              case random g of (x, g) \<Rightarrow>
                (case (if float_lt (Finite x) crit_chance
                       then (case int_mul_float base_damage float_1_8 of
                               Inl err \<Rightarrow> Inl err
                             | Inr y \<Rightarrow> float_to_int y)
                       else Inr base_damage) of
                   Inl err \<Rightarrow> Inl err
                 | Inr damage \<Rightarrow>
                     Inr (enemy_take_damage target (if damage < 1 then 1 else damage), g)))))"

definition special_move :: "player \<Rightarrow> enemy \<Rightarrow> rng \<Rightarrow> bool \<times> player \<times> enemy \<times> rng" where
  "special_move self target g =
     (let cost = 15 in
      if mp self < cost then (False, self, target, g)
      else
        (let self = self\<lparr>mp := mp self - cost\<rparr> in
         if char_class self = ''Guardian'' then
           (case randint 5 10 g of (r, g) \<Rightarrow>
              (True, self, enemy_take_damage target (stats.strength (stats self) + r), g))
         else if char_class self = ''Mage'' then
           (case randint 8 15 g of (r, g) \<Rightarrow>
              (True, self, enemy_take_damage target (stats.magic (stats self) + r), g))
         else if char_class self = ''Shadow'' then
           (case randint 6 12 g of (r, g) \<Rightarrow>
              (True, self, enemy_take_damage target (stats.agility (stats self) + r), g))
         else (True, self, target, g)))"

definition enemy_attack :: "enemy \<Rightarrow> player \<Rightarrow> rng \<Rightarrow> py_error + (player \<times> rng)" where
  "enemy_attack self target g =
     (if is_defending target then
        (case randint 1 4 g of (r, g) \<Rightarrow>
           Inr (player_take_damage target ((enemy.strength self + r) div 2), g))
      else
        (case int_mul_float (stats.agility (stats target)) float_0_01 of
           Inl err \<Rightarrow> Inl err
         | Inr dodge_chance \<Rightarrow>
             (case random g of (x, g) \<Rightarrow>
                if float_lt (Finite x) dodge_chance then Inr (target, g)
                else
                  (case randint 1 6 g of (r, g) \<Rightarrow>
                     Inr (player_take_damage target (enemy.strength self + r), g)))))"

subsection \<open>Console input\<close>






subsection \<open>The inventory screen\<close>





subsection \<open>The combat loop\<close>






subsection \<open>Players that combat keeps alive on their own turn\<close>



subsection \<open>The fixtures of test_game.py\<close>

text \<open>
  The player and the enemy that \<open>TestCombatMechanics.setUp\<close> builds, a generator
  whose two streams are constant, as \<open>patch\<close> makes \<open>randint\<close> and \<open>random\<close>, and the
  first enemy of the game, which \<open>stage_1_academy\<close> builds.
\<close>

definition test_hero :: player where
  "test_hero = setup_class (Player ''TestHero'') ''Mage'' 0"

definition test_golem :: enemy where
  "test_golem = Enemy ''Test Golem'' 50 10 5 0 ''A test.''"

definition fixed_rng :: "int \<Rightarrow> rat \<Rightarrow> rng" where
  "fixed_rng i x = \<lparr>randint_draws = (\<lambda>n. i), randint_count = 0,
     random_draws = (\<lambda>n. x), random_count = 0\<rparr>"




lemma test_hero_simps:
  "char_class test_hero = ''Mage''" "mp test_hero = 80" "max_mp test_hero = 80"
  "player.hp test_hero = 80" "player.max_hp test_hero = 80"
  "stats test_hero = \<lparr>stats.strength = 6, stats.agility = 10, stats.magic = 18\<rparr>"
  "is_defending test_hero = False" "player.name test_hero = ''TestHero''"
  "inventory test_hero =
     [Item 0 ''Apprentice Staff'' ''A smooth wooden staff, warm to the touch.'' ''weapon''
        (Some (Effect3 ''boost'' ''magic'' 2)),
      health_potion 1, health_potion 2]"
  by (simp_all add: test_hero_def setup_class_def Player_def Let_def numeral_2_eq_2)

section \<open>Properties\<close>

subsection \<open>The float operations on integers of ordinary size\<close>

text \<open>
  \<open>ilog2\<close> is the binary exponent, rounding errs by at most half a unit in the last
  place, and integers up to \<open>2^53\<close> are floats. So \<open>n * c\<close> raises no OverflowError for
  such \<open>n\<close>, and \<open>int(b * 1.8)\<close> is the quotient of \<open>9 * b\<close> by 5 truncated toward zero
  for \<open>\<bar>b\<bar> \<le> 2^50\<close>.
\<close>

lemma pow2_powi: "pow2 e = 2 powi e"
  by (simp add: pow2_def power_int_def inverse_eq_divide power_one_over)

lemma pow2_pos: "0 < pow2 e"
  by (simp add: pow2_powi zero_less_power_int)

lemma pow2_add: "pow2 (a + b) = pow2 a * pow2 b"
  by (simp add: pow2_powi power_int_add)

lemma pow2_mono: "a \<le> b \<Longrightarrow> pow2 a \<le> pow2 b"
  by (simp add: pow2_powi power_int_increasing)

lemma pow2_less_cancel: "pow2 a < pow2 b \<Longrightarrow> a < b"
  using pow2_mono [of b a] by (cases "a < b") auto

lemma pow2_nat: "pow2 (int n) = 2 ^ n"
  by (simp add: pow2_def)

lemma ilog2_bounds:
  assumes "x \<noteq> 0"
  shows "pow2 (ilog2 x) \<le> \<bar>x\<bar>" and "\<bar>x\<bar> < pow2 (ilog2 x + 1)"
proof -
  obtain p q where pq: "quotient_of \<bar>x\<bar> = (p, q)" by (cases "quotient_of \<bar>x\<bar>")
  have q: "0 < q" using pq by (rule quotient_of_denom_pos)
  have x: "\<bar>x\<bar> = of_int p / of_int q" using pq by (rule quotient_of_div)
  have "0 < \<bar>x\<bar>" using assms by simp
  then have p: "0 < p" using q x by (simp add: zero_less_divide_iff)
  define bp where "bp = bitlen p"
  define bq where "bq = bitlen q"
  have bp1: "1 \<le> bp" using p bitlen_bounds [of p] bitlen_nonneg [of p]
    unfolding bp_def by (cases "bitlen p = 0") auto
  have bq1: "1 \<le> bq" using q bitlen_bounds [of q] bitlen_nonneg [of q]
    unfolding bq_def by (cases "bitlen q = 0") auto
  have ip: "2 ^ nat (bp - 1) \<le> p" "p < 2 ^ nat bp"
    and iq: "2 ^ nat (bq - 1) \<le> q" "q < 2 ^ nat bq"
    using bitlen_bounds [OF p] bitlen_bounds [OF q] by (simp_all add: bp_def bq_def)
  have P: "pow2 (bp - 1) \<le> of_int p" "of_int p < pow2 bp"
  proof -
    have "(of_int (2 ^ nat (bp - 1)) :: rat) \<le> of_int p" using ip(1) by (rule of_int_le_iff [THEN iffD2])
    then show "pow2 (bp - 1) \<le> of_int p" using bp1 by (simp add: pow2_def)
    have "(of_int p :: rat) < of_int (2 ^ nat bp)" using ip(2) by (rule of_int_less_iff [THEN iffD2])
    then show "of_int p < pow2 bp" using bp1 by (simp add: pow2_def)
  qed
  have Q: "pow2 (bq - 1) \<le> of_int q" "of_int q < pow2 bq"
  proof -
    have "(of_int (2 ^ nat (bq - 1)) :: rat) \<le> of_int q" using iq(1) by (rule of_int_le_iff [THEN iffD2])
    then show "pow2 (bq - 1) \<le> of_int q" using bq1 by (simp add: pow2_def)
    have "(of_int q :: rat) < of_int (2 ^ nat bq)" using iq(2) by (rule of_int_less_iff [THEN iffD2])
    then show "of_int q < pow2 bq" using bq1 by (simp add: pow2_def)
  qed
  have qpos: "(0::rat) < of_int q" using q by simp
  have up: "\<bar>x\<bar> < pow2 (bp - bq + 1)"
  proof -
    have "of_int p < pow2 (bp - bq + 1) * pow2 (bq - 1)"
      using P(2) by (simp flip: pow2_add)
    also have "\<dots> \<le> pow2 (bp - bq + 1) * of_int q"
      using Q(1) pow2_pos [of "bp - bq + 1"] by simp
    finally show ?thesis using qpos by (simp add: x pos_divide_less_eq)
  qed
  have lo: "pow2 (bp - bq - 1) \<le> \<bar>x\<bar>"
  proof -
    have "pow2 (bp - bq - 1) * of_int q \<le> pow2 (bp - bq - 1) * pow2 bq"
      using Q(2) pow2_pos [of "bp - bq - 1"] by simp
    also have "\<dots> = pow2 (bp - 1)" by (simp flip: pow2_add)
    also have "\<dots> \<le> of_int p" by (rule P(1))
    finally show ?thesis using qpos by (simp add: x pos_le_divide_eq)
  qed
  have il: "ilog2 x = (if pow2 (bp - bq) \<le> \<bar>x\<bar> then bp - bq else bp - bq - 1)"
    by (simp add: ilog2_def pq Let_def bp_def bq_def)
  show "pow2 (ilog2 x) \<le> \<bar>x\<bar>" using lo by (simp add: il)
  show "\<bar>x\<bar> < pow2 (ilog2 x + 1)" using up by (auto simp: il)
qed

lemma round_half_even_error: "\<bar>of_int (round_half_even q) - q\<bar> \<le> 1 / 2"
proof -
  have "of_int \<lfloor>q\<rfloor> \<le> q" "q < of_int \<lfloor>q\<rfloor> + 1" by linarith+
  then show ?thesis
    by (auto simp: round_half_even_def Let_def abs_le_iff)
qed

lemma round_half_even_of_int [simp]: "round_half_even (of_int k) = k"
  by (simp add: round_half_even_def)

lemma round_half_even_numeral [simp]:
  "round_half_even (numeral k) = numeral k" "round_half_even (- numeral k) = - numeral k"
  using round_half_even_of_int [of "numeral k"] round_half_even_of_int [of "- numeral k"]
  by simp_all

lemma round_half_even_ge: "of_int m \<le> q \<Longrightarrow> m \<le> round_half_even q"
proof -
  assume "of_int m \<le> q"
  then have "m \<le> \<lfloor>q\<rfloor>" by (simp add: le_floor_iff)
  then show ?thesis by (auto simp: round_half_even_def Let_def)
qed

lemma round_half_even_minus: "round_half_even (- q) = - round_half_even q"
proof (cases "q = of_int \<lfloor>q\<rfloor>")
  case True
  then obtain k where "q = of_int k" ..
  then show ?thesis by (simp flip: of_int_minus)
next
  case False
  then have c: "\<lceil>q\<rceil> = \<lfloor>q\<rfloor> + 1" by (simp add: ceiling_altdef)
  have f: "\<lfloor>- q\<rfloor> = - \<lfloor>q\<rfloor> - 1" using c by (simp add: floor_minus)
  have "of_int \<lfloor>q\<rfloor> \<le> q" "q < of_int \<lfloor>q\<rfloor> + 1" by linarith+
  then show ?thesis using False
    by (auto simp: round_half_even_def Let_def f)
qed


lemma ilog2_minus [simp]: "ilog2 (- x) = ilog2 x"
  by (simp add: ilog2_def)

lemma round_double_minus: "round_double (- x) = - round_double x"
  by (simp add: round_double_def Let_def round_half_even_minus)

lemma round_double_error:
  assumes "x \<noteq> 0"
  shows "\<bar>round_double x - x\<bar> \<le> pow2 (max (ilog2 x) (- 1022) - 53)"
proof -
  define u where "u = pow2 (max (ilog2 x) (- 1022) - 52)"
  have u: "0 < u" by (simp add: u_def pow2_pos)
  have half: "pow2 (max (ilog2 x) (- 1022) - 53) = u / 2"
    using pow2_add [of "max (ilog2 x) (- 1022) - 53" 1] by (simp add: u_def pow2_def [of 1])
  have "round_double x - x = (of_int (round_half_even (x / u)) - x / u) * u"
    using assms u by (simp add: round_double_def Let_def u_def [symmetric] algebra_simps)
  then have "\<bar>round_double x - x\<bar> = \<bar>of_int (round_half_even (x / u)) - x / u\<bar> * u"
    using u by (simp add: abs_mult)
  also have "\<dots> \<le> 1 / 2 * u"
    using round_half_even_error [of "x / u"] u by (intro mult_right_mono) simp_all
  finally show ?thesis by (simp add: half)
qed

lemma ilog2_of_int_nonneg:
  assumes "n \<noteq> 0"
  shows "0 \<le> ilog2 (of_int n)"
proof -
  have "1 \<le> \<bar>n\<bar>" using assms by simp
  then have "(of_int 1 :: rat) \<le> of_int \<bar>n\<bar>" by (rule of_int_le_iff [THEN iffD2])
  then have "(1::rat) \<le> \<bar>of_int n\<bar>" by simp
  also have "\<dots> < pow2 (ilog2 (of_int n) + 1)" using assms by (intro ilog2_bounds) simp
  finally have "pow2 0 < pow2 (ilog2 (of_int n) + 1)" by (simp add: pow2_def)
  then show ?thesis using pow2_less_cancel by fastforce
qed


lemma round_double_of_int:
  assumes "\<bar>n\<bar> \<le> 2 ^ 53"
  shows "round_double (of_int n) = of_int n"
proof (cases "n = 0")
  case True
  then show ?thesis by (simp add: round_double_def)
next
  case False
  define e where "e = ilog2 (of_int n)"
  have e0: "0 \<le> e" using False by (simp add: e_def ilog2_of_int_nonneg)
  have "(of_int \<bar>n\<bar> :: rat) \<le> of_int (2 ^ 53)" using assms by (rule of_int_le_iff [THEN iffD2])
  then have n53: "\<bar>of_int n :: rat\<bar> \<le> pow2 53" by (simp add: pow2_def)
  have "pow2 e \<le> \<bar>of_int n\<bar>" using False unfolding e_def by (intro ilog2_bounds) simp
  then have pe: "pow2 e \<le> pow2 53" using n53 by simp
  have e53: "e \<le> 53"
  proof (rule ccontr)
    assume "\<not> e \<le> 53"
    then have "pow2 54 \<le> pow2 e" by (intro pow2_mono) simp
    with pe show False by (simp add: pow2_def)
  qed
  define u where "u = pow2 (e - 52)"
  have rd: "round_double (of_int n) = of_int (round_half_even (of_int n / u)) * u"
    using False e0 by (simp add: round_double_def Let_def e_def [symmetric] u_def max_def)
  have u: "0 < u" by (simp add: u_def pow2_pos)
  show ?thesis
  proof (cases "e = 53")
    case True
    then have "pow2 53 \<le> \<bar>of_int n :: rat\<bar>"
      using \<open>pow2 e \<le> \<bar>of_int n\<bar>\<close> by simp
    with n53 have "\<bar>of_int n :: rat\<bar> = 2 ^ 53" by (simp add: pow2_def)
    then have "(of_int \<bar>n\<bar> :: rat) = of_int (2 ^ 53)" by simp
    then have "\<bar>n\<bar> = 2 ^ 53" by (rule of_int_eq_iff [THEN iffD1])
    then have "n = 9007199254740992 \<or> n = - 9007199254740992" by auto
    then show ?thesis using True by (auto simp: rd u_def pow2_def)
  next
    case False
    then have "0 \<le> 52 - e" using e53 by simp
    then have "inverse u = 2 ^ nat (52 - e)"
      using pow2_add [of "e - 52" "52 - e"] pow2_nat [of "nat (52 - e)"] u
      by (simp add: u_def pow2_def [of 0] field_simps)
    then have "of_int n / u = (of_int (n * 2 ^ nat (52 - e)) :: rat)"
      by (simp add: divide_inverse)
    then have "of_int (round_half_even (of_int n / u)) * u = of_int n * (2 ^ nat (52 - e) * u)"
      by (simp only: round_half_even_of_int) simp
    also have "2 ^ nat (52 - e) * u = 1"
      using \<open>inverse u = 2 ^ nat (52 - e)\<close> [symmetric] u by simp
    finally show ?thesis by (simp add: rd)
  qed
qed

lemma int_to_float_exact:
  assumes "\<bar>n\<bar> \<le> 2 ^ 53"
  shows "int_to_float n = Inr (of_int n)"
proof -
  have "(of_int \<bar>n\<bar> :: rat) \<le> of_int (2 ^ 53)" using assms by (rule of_int_le_iff [THEN iffD2])
  then have "\<bar>of_int n :: rat\<bar> \<le> 2 ^ 53" by simp
  also have "(2 ^ 53 :: rat) \<le> dbl_max" by (simp add: dbl_max_def)
  finally show ?thesis using assms by (simp add: int_to_float_def round_double_of_int)
qed

lemma round_double_bound:
  assumes "\<bar>x\<bar> \<le> B" and "1 \<le> B"
  shows "\<bar>round_double x\<bar> \<le> 2 * B"
proof (cases "x = 0")
  case True
  then show ?thesis using assms by (simp add: round_double_def)
next
  case False
  define E where "E = max (ilog2 x) (- 1022)"
  have "pow2 (E - 53) \<le> pow2 E" by (intro pow2_mono) simp
  also have "\<dots> \<le> B"
  proof (cases "ilog2 x \<le> - 1022")
    case True
    then have "pow2 E = pow2 (- 1022)" by (simp add: E_def max_def)
    also have "\<dots> \<le> pow2 0" by (intro pow2_mono) simp
    finally show ?thesis using assms by (simp add: pow2_def [of 0])
  next
    case False
    then have "pow2 E = pow2 (ilog2 x)" by (simp add: E_def max_def)
    also have "\<dots> \<le> \<bar>x\<bar>" using \<open>x \<noteq> 0\<close> by (rule ilog2_bounds)
    finally show ?thesis using assms by simp
  qed
  finally have "pow2 (E - 53) \<le> B" .
  with round_double_error [OF \<open>x \<noteq> 0\<close>] have "\<bar>round_double x - x\<bar> \<le> B" by (simp add: E_def)
  with assms show ?thesis by linarith
qed

lemma float_mul_finite:
  assumes "\<bar>a * b\<bar> \<le> 2 ^ 100"
  shows "float_mul a b = Finite (round_double (a * b))"
proof -
  have "\<bar>round_double (a * b)\<bar> \<le> 2 * 2 ^ 100" using assms by (rule round_double_bound) simp
  also have "\<dots> \<le> dbl_max" by (simp add: dbl_max_def)
  finally show ?thesis by (simp add: float_mul_def Let_def abs_le_iff)
qed

lemma int_mul_float_finite:
  assumes "\<bar>n\<bar> \<le> 2 ^ 53" and "\<bar>c\<bar> \<le> 2"
  shows "int_mul_float n c = Inr (Finite (round_double (of_int n * c)))"
proof -
  have "(of_int \<bar>n\<bar> :: rat) \<le> of_int (2 ^ 53)" using assms(1) by (rule of_int_le_iff [THEN iffD2])
  then have "\<bar>of_int n :: rat\<bar> \<le> 2 ^ 53" by simp
  then have "\<bar>of_int n\<bar> * \<bar>c\<bar> \<le> 2 ^ 53 * 2" using assms(2) by (intro mult_mono) simp_all
  also have "\<dots> \<le> (2 ^ 100 :: rat)" by simp
  finally have "\<bar>of_int n * c\<bar> \<le> 2 ^ 100" by (simp add: abs_mult)
  then show ?thesis
    using assms(1) by (simp add: int_mul_float_def int_to_float_exact float_mul_finite)
qed

lemma float_0_015_val: "float_0_015 = 8646911284551352 / 2 ^ 59"
  unfolding float_0_015_def by code_simp

lemma float_0_01_val: "float_0_01 = 5764607523034235 / 2 ^ 59"
  unfolding float_0_01_def by code_simp

lemma float_1_8_val: "float_1_8 = 8106479329266893 / 2 ^ 52"
  unfolding float_1_8_def by code_simp



lemma ilog2_less:
  assumes "x \<noteq> 0" and "\<bar>x\<bar> < pow2 m"
  shows "ilog2 x < m"
proof -
  have "pow2 (ilog2 x) \<le> \<bar>x\<bar>" using assms(1) by (rule ilog2_bounds)
  with assms(2) have "pow2 (ilog2 x) < pow2 m" by simp
  then show ?thesis by (rule pow2_less_cancel)
qed

lemma ilog2_ge:
  assumes "x \<noteq> 0" and "pow2 m \<le> \<bar>x\<bar>"
  shows "m \<le> ilog2 x"
proof -
  have "\<bar>x\<bar> < pow2 (ilog2 x + 1)" using assms(1) by (rule ilog2_bounds)
  with assms(2) have "pow2 m < pow2 (ilog2 x + 1)" by simp
  then have "m < ilog2 x + 1" by (rule pow2_less_cancel)
  then show ?thesis by simp
qed

lemma floor_times_1_8:
  assumes "0 < b" and "b \<le> 2 ^ 50"
  shows "\<lfloor>round_double (of_int b * float_1_8)\<rfloor> = 9 * b div 5"
proof -
  define x :: rat where "x = of_int b * float_1_8"
  define k where "k = 9 * b div 5"
  have b1: "(1::rat) \<le> of_int b" using assms(1) by simp
  have "(of_int b :: rat) \<le> of_int (2 ^ 50)" using assms(2) by (rule of_int_le_iff [THEN iffD2])
  then have b50: "(of_int b :: rat) \<le> 2 ^ 50" by simp
  have xeq: "x = of_int (9 * b) / 5 + of_int b / (5 * 2 ^ 52)"
    by (simp add: x_def float_1_8_val field_simps)
  have "5 * k \<le> 9 * b" "9 * b \<le> 5 * k + 4" unfolding k_def by presburger+
  then have "(of_int (5 * k) :: rat) \<le> of_int (9 * b)" "(of_int (9 * b) :: rat) \<le> of_int (5 * k + 4)"
    by (simp_all only: of_int_le_iff)
  then have k9: "of_int k \<le> (of_int (9 * b) :: rat) / 5" "(of_int (9 * b) :: rat) / 5 \<le> of_int k + 4 / 5"
    by simp_all
  have lo: "of_int k \<le> x" using k9(1) b1 by (simp add: xeq)
  have "(of_int b :: rat) / (5 * 2 ^ 52) \<le> 2 ^ 50 / (5 * 2 ^ 52)"
    using b50 by (intro divide_right_mono) simp_all
  then have hi: "x \<le> of_int k + 4 / 5 + 1 / 20" using k9(2) by (simp add: xeq)
  have x1: "1 \<le> x" using b1 by (simp add: x_def float_1_8_val field_simps)
  have "x \<le> 2 ^ 50 * float_1_8" unfolding x_def using b50
    by (intro mult_right_mono) (simp_all add: float_1_8_val)
  also have "\<dots> < 2 ^ 51" by (simp add: float_1_8_val)
  finally have x51: "x < 2 ^ 51" .
  have x0: "x \<noteq> 0" using x1 by simp
  define e where "e = ilog2 x"
  have e50: "e < 51" unfolding e_def using x0 x51 x1 by (intro ilog2_less) (simp_all add: pow2_def)
  have e0: "0 \<le> e" unfolding e_def using x0 x1 by (intro ilog2_ge) (simp_all add: pow2_def)
  define u where "u = pow2 (e - 52)"
  have u: "0 < u" by (simp add: u_def pow2_pos)
  have rd: "round_double x = of_int (round_half_even (x / u)) * u"
    using x0 e0 by (simp add: round_double_def Let_def e_def [symmetric] u_def max_def)
  have inv: "inverse u = 2 ^ nat (52 - e)"
    using pow2_add [of "e - 52" "52 - e"] pow2_nat [of "nat (52 - e)"] u e50
    by (simp add: u_def pow2_def [of 0] field_simps)
  have "(of_int (k * 2 ^ nat (52 - e)) :: rat) = of_int k / u"
    using inv by (simp add: divide_inverse)
  also have "\<dots> \<le> x / u" using lo u by (simp add: divide_right_mono)
  finally have "k * 2 ^ nat (52 - e) \<le> round_half_even (x / u)" by (rule round_half_even_ge)
  then have "(of_int (k * 2 ^ nat (52 - e)) :: rat) \<le> of_int (round_half_even (x / u))"
    by (rule of_int_le_iff [THEN iffD2])
  then have "of_int (k * 2 ^ nat (52 - e)) * u \<le> round_double x"
    using u by (simp only: rd mult_le_cancel_right_pos)
  moreover have "2 ^ nat (52 - e) * u = 1"
    using inv [symmetric] u by simp
  then have "of_int (k * 2 ^ nat (52 - e)) * u = (of_int k :: rat)"
    by (simp add: mult.assoc)
  ultimately have ge: "of_int k \<le> round_double x" by (simp only:)
  have "pow2 (max (ilog2 x) (- 1022) - 53) \<le> pow2 (- 3)"
    using e50 e0 by (intro pow2_mono) (simp add: e_def [symmetric])
  with round_double_error [OF x0] have "\<bar>round_double x - x\<bar> \<le> 1 / 8"
    by (simp add: pow2_def)
  with hi have lt: "round_double x < of_int k + 1" by linarith
  from ge lt have "\<lfloor>round_double x\<rfloor> = k" by (simp add: floor_unique)
  then show ?thesis by (simp add: x_def k_def)
qed

lemma int_times_1_8:
  assumes "\<bar>b\<bar> \<le> 2 ^ 50"
  shows "(case int_mul_float b float_1_8 of Inl err \<Rightarrow> Inl err | Inr y \<Rightarrow> float_to_int y)
    = Inr (sgn b * (9 * \<bar>b\<bar> div 5))"
proof -
  have "\<bar>b\<bar> \<le> 2 ^ 53" using assms by simp
  moreover have "\<bar>float_1_8\<bar> \<le> 2" by (simp add: float_1_8_val)
  ultimately have m: "int_mul_float b float_1_8 = Inr (Finite (round_double (of_int b * float_1_8)))"
    by (rule int_mul_float_finite)
  consider "b = 0" | "0 < b" | "b < 0" by linarith
  then show ?thesis
  proof cases
    case 1
    show ?thesis using m unfolding 1 by (simp add: float_to_int_def round_double_def)
  next
    case 2
    then have f: "\<lfloor>round_double (of_int b * float_1_8)\<rfloor> = 9 * b div 5"
      using assms by (intro floor_times_1_8) simp_all
    have "0 \<le> 9 * b div 5" using 2 by simp
    then have "0 \<le> round_double (of_int b * float_1_8)"
      unfolding f [symmetric] by simp
    then show ?thesis using 2 f by (simp add: m float_to_int_def)
  next
    case 3
    then have f: "\<lfloor>round_double (of_int (- b) * float_1_8)\<rfloor> = 9 * (- b) div 5"
      using assms by (intro floor_times_1_8) simp_all
    have "1 \<le> 9 * (- b) div 5" using 3 by presburger
    then have "1 \<le> round_double (of_int (- b) * float_1_8)"
      unfolding f [symmetric] by (simp add: le_floor_iff)
    moreover have r: "round_double (of_int b * float_1_8) = - round_double (of_int (- b) * float_1_8)"
      by (simp flip: round_double_minus)
    ultimately have neg: "\<not> 0 \<le> round_double (of_int b * float_1_8)" by simp
    have "\<lceil>round_double (of_int b * float_1_8)\<rceil> = - (9 * (- b) div 5)"
      unfolding r ceiling_minus f by simp
    then show ?thesis using 3 neg by (simp add: m float_to_int_def)
  qed
qed

lemma float_0_015_le_2: "\<bar>float_0_015\<bar> \<le> 2" by (simp add: float_0_015_val)
lemma float_0_01_le_2: "\<bar>float_0_01\<bar> \<le> 2" by (simp add: float_0_01_val)

lemma crit_chance_10: "round_double (10 * float_0_015) = 5404319552844595 / 2 ^ 55"
  unfolding float_0_015_def by code_simp

lemma dodge_chance_10: "round_double (10 * float_0_01) = 3602879701896397 / 2 ^ 55"
  unfolding float_0_01_def by code_simp

subsection \<open>Invariants of the loops\<close>

























subsection \<open>A run of two turns\<close>









subsection \<open>Runs from states outside the game\<close>







subsection \<open>The range of randint\<close>

lemma randint_range:
  assumes "a \<le> b"
  shows "a \<le> fst (randint a b g)" and "fst (randint a b g) \<le> b"
proof -
  have n: "0 < b - a + 1" using assms by simp
  have "0 \<le> (randint_draws g (randint_count g) - a) mod (b - a + 1)"
    using n by (rule pos_mod_sign)
  then show "a \<le> fst (randint a b g)" by (simp add: randint_def)
  have "(randint_draws g (randint_count g) - a) mod (b - a + 1) < b - a + 1"
    using n by (rule pos_mod_bound)
  then show "fst (randint a b g) \<le> b" by (simp add: randint_def)
qed

lemma randint_draw:
  assumes "a \<le> randint_draws g (randint_count g)" and "randint_draws g (randint_count g) \<le> b"
  shows "fst (randint a b g) = randint_draws g (randint_count g)"
  using assms by (simp add: randint_def mod_pos_pos_trivial)

lemma randint_state: "snd (randint a b g) = g\<lparr>randint_count := Suc (randint_count g)\<rparr>"
  by (simp add: randint_def)

subsection \<open>take_damage\<close>

text \<open>
  C5 (as amended). For a Player and for an Enemy and every integer amount,
  \<open>take_damage(amount)\<close> changes the health alone, to \<open>max(0, health - amount)\<close>, so
  the health is never below 0 afterwards. It does not exceed the maximum afterwards
  when the amount is not negative and \<open>0 \<le> health \<le> max_health\<close> held before.
\<close>

theorem take_damage_clamped:
  "player_take_damage p d = p\<lparr>player.hp := max 0 (player.hp p - d)\<rparr>
   \<and> enemy_take_damage e d = e\<lparr>enemy.hp := max 0 (enemy.hp e - d)\<rparr>
   \<and> 0 \<le> player.hp (player_take_damage p d)
   \<and> 0 \<le> enemy.hp (enemy_take_damage e d)
   \<and> (0 \<le> d \<and> 0 \<le> player.hp p \<and> player.hp p \<le> player.max_hp p
        \<longrightarrow> player.hp (player_take_damage p d) \<le> player.max_hp (player_take_damage p d))
   \<and> (0 \<le> d \<and> 0 \<le> enemy.hp e \<and> enemy.hp e \<le> enemy.max_hp e
        \<longrightarrow> enemy.hp (enemy_take_damage e d) \<le> enemy.max_hp (enemy_take_damage e d))"
  by (simp add: player_take_damage_def enemy_take_damage_def Let_def max_def)

theorem take_damage_clamped_witness:
  "(0::int) \<le> 30
   \<and> 0 \<le> player.hp (Player ''Hero'') \<and> player.hp (Player ''Hero'') \<le> player.max_hp (Player ''Hero'')
   \<and> 0 \<le> enemy.hp (Enemy ''Golem'' 50 10 5 0 ''A test.'')
   \<and> enemy.hp (Enemy ''Golem'' 50 10 5 0 ''A test.'') \<le> enemy.max_hp (Enemy ''Golem'' 50 10 5 0 ''A test.'')
   \<and> player.hp (player_take_damage (Player ''Hero'') 30) = 70
   \<and> player.hp (player_take_damage (Player ''Hero'') 30) \<le> player.max_hp (player_take_damage (Player ''Hero'') 30)
   \<and> enemy.hp (enemy_take_damage (Enemy ''Golem'' 50 10 5 0 ''A test.'') 30) = 20
   \<and> enemy.hp (enemy_take_damage (Enemy ''Golem'' 50 10 5 0 ''A test.'') 30)
        \<le> enemy.max_hp (enemy_take_damage (Enemy ''Golem'' 50 10 5 0 ''A test.'') 30)"
  using take_damage_clamped [of "Player ''Hero''" 30 "Enemy ''Golem'' 50 10 5 0 ''A test.''"]
  by (simp add: Player_def Enemy_def)

theorem take_damage_negative_counterexample:
  "\<not> player.hp (player_take_damage (Player ''Hero'') (- 10))
       \<le> player.max_hp (player_take_damage (Player ''Hero'') (- 10))"
  by (simp add: player_take_damage_def Player_def)

subsection \<open>setup_class\<close>


subsection \<open>use_item\<close>

text \<open>
  C9. \<open>use_item\<close> on an item whose \<open>item_type\<close> is not \<open>'potion'\<close> (a weapon, an
  artifact) prints that the item cannot be used and returns: the player, with its
  vitals, stats and inventory, is unchanged.
\<close>

theorem use_item_not_potion:
  assumes "item_type it \<noteq> ''potion''"
  shows "use_item self it = (None, self, [''You can't 'use' '' @ item.name it @ '' right now.''])"
  using assms by (simp add: use_item_def)

theorem use_item_not_potion_witness:
  "item_type (Item 7 ''The Sunstone'' ''The complete Sunstone. It feels heavy.'' ''artifact'' None)
     \<noteq> ''potion''
   \<and> use_item test_hero
        (Item 7 ''The Sunstone'' ''The complete Sunstone. It feels heavy.'' ''artifact'' None) =
       (None, test_hero, [''You can't 'use' The Sunstone right now.''])
   \<and> item_type (hd (inventory test_hero)) \<noteq> ''potion''
   \<and> use_item test_hero (hd (inventory test_hero)) =
       (None, test_hero, [''You can't 'use' Apprentice Staff right now.''])"
  using use_item_not_potion
      [of "Item 7 ''The Sunstone'' ''The complete Sunstone. It feels heavy.'' ''artifact'' None" test_hero]
    use_item_not_potion [of "hd (inventory test_hero)" test_hero]
  by (simp add: Item_def test_hero_simps)

text \<open>
  C7. A potion of effect \<open>('heal', n)\<close> used at full health prints that the health is
  full and changes nothing, the inventory included. Used below the maximum, and taken
  from the inventory, it sets the health to \<open>min(max_hp, hp + n)\<close> and removes that item,
  one element, from the inventory. The same holds of \<open>('mana', n)\<close> and the mana.
\<close>

theorem use_item_potion:
  "(item_type it = ''potion'' \<and> effect it = Some (Effect2 ''heal'' n) \<longrightarrow>
      (player.hp self = player.max_hp self \<longrightarrow>
         use_item self it = (None, self, [''Your health is already full!'']))
    \<and> (player.hp self < player.max_hp self \<and> it \<in> set (inventory self) \<longrightarrow>
         use_item self it =
           (None,
            self\<lparr>player.hp := min (player.max_hp self) (player.hp self + n),
                 inventory := remove1 it (inventory self)\<rparr>,
            [player.name self @ '' uses a '' @ item.name it @ '' and restores ''
               @ str_int n @ '' HP.'',
             ''You now have '' @ str_int (min (player.max_hp self) (player.hp self + n)) @ ''/''
               @ str_int (player.max_hp self) @ '' HP.''])
         \<and> length (remove1 it (inventory self)) = length (inventory self) - 1))
   \<and> (item_type it = ''potion'' \<and> effect it = Some (Effect2 ''mana'' n) \<longrightarrow>
      (mp self = max_mp self \<longrightarrow>
         use_item self it = (None, self, [''Your mana is already full!'']))
    \<and> (mp self < max_mp self \<and> it \<in> set (inventory self) \<longrightarrow>
         use_item self it =
           (None,
            self\<lparr>mp := min (max_mp self) (mp self + n),
                 inventory := remove1 it (inventory self)\<rparr>,
            [player.name self @ '' uses a '' @ item.name it @ '' and restores ''
               @ str_int n @ '' MP.'',
             ''You now have '' @ str_int (min (max_mp self) (mp self + n)) @ ''/''
               @ str_int (max_mp self) @ '' MP.''])
         \<and> length (remove1 it (inventory self)) = length (inventory self) - 1))"
  by (simp add: use_item_def list_remove_def Let_def min_def length_remove1)

theorem use_item_potion_witness:
  "item_type (health_potion 1) = ''potion''
   \<and> effect (health_potion 1) = Some (Effect2 ''heal'' 25)
   \<and> player.hp test_hero = player.max_hp test_hero
   \<and> use_item test_hero (health_potion 1) = (None, test_hero, [''Your health is already full!''])
   \<and> player.hp (test_hero\<lparr>player.hp := 70\<rparr>) < player.max_hp (test_hero\<lparr>player.hp := 70\<rparr>)
   \<and> health_potion 1 \<in> set (inventory (test_hero\<lparr>player.hp := 70\<rparr>))
   \<and> use_item (test_hero\<lparr>player.hp := 70\<rparr>) (health_potion 1) =
       (None,
        test_hero\<lparr>player.hp := 80, inventory := [hd (inventory test_hero), health_potion 2]\<rparr>,
        [''TestHero uses a Health Potion and restores 25 HP.'', ''You now have 80/80 HP.''])
   \<and> item_type (Item 3 ''Mana Potion'' ''Restores 25 MP.'' ''potion'' (Some (Effect2 ''mana'' 25)))
        = ''potion''
   \<and> use_item (test_hero\<lparr>mp := 50, inventory := [Item 3 ''Mana Potion'' ''Restores 25 MP.'' ''potion'' (Some (Effect2 ''mana'' 25))]\<rparr>)
         (Item 3 ''Mana Potion'' ''Restores 25 MP.'' ''potion'' (Some (Effect2 ''mana'' 25))) =
       (None, test_hero\<lparr>mp := 75, inventory := []\<rparr>,
        [''TestHero uses a Mana Potion and restores 25 MP.'', ''You now have 75/80 MP.''])"
  using use_item_potion [of "health_potion 1" 25 test_hero]
    use_item_potion [of "health_potion 1" 25 "test_hero\<lparr>player.hp := 70\<rparr>"]
    use_item_potion [of "Item 3 ''Mana Potion'' ''Restores 25 MP.'' ''potion'' (Some (Effect2 ''mana'' 25))" 25
      "test_hero\<lparr>mp := 50, inventory := [Item 3 ''Mana Potion'' ''Restores 25 MP.'' ''potion'' (Some (Effect2 ''mana'' 25))]\<rparr>"]
  by (simp add: test_hero_simps health_potion_def Item_def str_int_def)

subsection \<open>special_move\<close>

text \<open>
  C4. \<open>special_move\<close> returns False exactly when the mana is below 15, and then changes
  nothing. Otherwise it takes 15 mana and the target takes, through \<open>take_damage\<close>
  alone, strength + randint(5, 10) for a Guardian, magic + randint(8, 15) for a Mage and
  agility + randint(6, 12) for a Shadow, the roll lying in the range named; no call of
  \<open>random\<close> is made. The Mage of the tests with roll 10 deals 28.
\<close>

theorem special_move_cost_and_damage:
  "(fst (special_move self target g) \<longleftrightarrow> \<not> mp self < 15)
   \<and> (mp self < 15 \<longrightarrow> special_move self target g = (False, self, target, g))
   \<and> (\<not> mp self < 15 \<and> char_class self = ''Guardian'' \<longrightarrow>
        special_move self target g =
          (True, self\<lparr>mp := mp self - 15\<rparr>,
           target\<lparr>enemy.hp := max 0 (enemy.hp target
             - (stats.strength (stats self) + fst (randint 5 10 g)))\<rparr>,
           g\<lparr>randint_count := Suc (randint_count g)\<rparr>))
   \<and> (\<not> mp self < 15 \<and> char_class self = ''Mage'' \<longrightarrow>
        special_move self target g =
          (True, self\<lparr>mp := mp self - 15\<rparr>,
           target\<lparr>enemy.hp := max 0 (enemy.hp target
             - (stats.magic (stats self) + fst (randint 8 15 g)))\<rparr>,
           g\<lparr>randint_count := Suc (randint_count g)\<rparr>))
   \<and> (\<not> mp self < 15 \<and> char_class self = ''Shadow'' \<longrightarrow>
        special_move self target g =
          (True, self\<lparr>mp := mp self - 15\<rparr>,
           target\<lparr>enemy.hp := max 0 (enemy.hp target
             - (stats.agility (stats self) + fst (randint 6 12 g)))\<rparr>,
           g\<lparr>randint_count := Suc (randint_count g)\<rparr>))
   \<and> 5 \<le> fst (randint 5 10 g) \<and> fst (randint 5 10 g) \<le> 10
   \<and> 8 \<le> fst (randint 8 15 g) \<and> fst (randint 8 15 g) \<le> 15
   \<and> 6 \<le> fst (randint 6 12 g) \<and> fst (randint 6 12 g) \<le> 12"
proof -
  have "special_move self target g =
      (if mp self < 15 then (False, self, target, g)
       else if char_class self = ''Guardian'' then
         (True, self\<lparr>mp := mp self - 15\<rparr>,
          enemy_take_damage target (stats.strength (stats self) + fst (randint 5 10 g)),
          snd (randint 5 10 g))
       else if char_class self = ''Mage'' then
         (True, self\<lparr>mp := mp self - 15\<rparr>,
          enemy_take_damage target (stats.magic (stats self) + fst (randint 8 15 g)),
          snd (randint 8 15 g))
       else if char_class self = ''Shadow'' then
         (True, self\<lparr>mp := mp self - 15\<rparr>,
          enemy_take_damage target (stats.agility (stats self) + fst (randint 6 12 g)),
          snd (randint 6 12 g))
       else (True, self\<lparr>mp := mp self - 15\<rparr>, target, g))"
    by (simp add: special_move_def Let_def split: prod.splits)
  then show ?thesis
    using randint_range [of 5 10 g] randint_range [of 8 15 g] randint_range [of 6 12 g]
    by (simp add: randint_state enemy_take_damage_def Let_def max_def)
qed

theorem special_move_cost_and_damage_witness:
  "\<not> mp test_hero < 15 \<and> char_class test_hero = ''Mage''
   \<and> fst (randint 8 15 (fixed_rng 10 0)) = 10
   \<and> special_move test_hero test_golem (fixed_rng 10 0) =
       (True, test_hero\<lparr>mp := 65\<rparr>, test_golem\<lparr>enemy.hp := 22\<rparr>,
        (fixed_rng 10 0)\<lparr>randint_count := 1\<rparr>)
   \<and> mp (test_hero\<lparr>mp := 10\<rparr>) < 15
   \<and> special_move (test_hero\<lparr>mp := 10\<rparr>) test_golem (fixed_rng 10 0) =
       (False, test_hero\<lparr>mp := 10\<rparr>, test_golem, fixed_rng 10 0)"
  using special_move_cost_and_damage [of test_hero test_golem "fixed_rng 10 0"]
    special_move_cost_and_damage [of "test_hero\<lparr>mp := 10\<rparr>" test_golem "fixed_rng 10 0"]
  by (simp add: test_hero_simps test_golem_def Enemy_def fixed_rng_def randint_def)

text \<open>
  C10. A player whose \<open>char_class\<close> is none of Guardian, Mage, Shadow and who has at
  least 15 mana loses 15 mana by \<open>special_move\<close>, which returns True and leaves the
  target and the generator as they were.
\<close>

theorem special_move_unknown_class:
  assumes "char_class self \<noteq> ''Guardian''" and "char_class self \<noteq> ''Mage''"
    and "char_class self \<noteq> ''Shadow''" and "15 \<le> mp self"
  shows "special_move self target g = (True, self\<lparr>mp := mp self - 15\<rparr>, target, g)"
  using assms by (simp add: special_move_def Let_def)

theorem special_move_unknown_class_witness:
  "char_class (Player ''Hero'') \<noteq> ''Guardian'' \<and> char_class (Player ''Hero'') \<noteq> ''Mage''
   \<and> char_class (Player ''Hero'') \<noteq> ''Shadow'' \<and> 15 \<le> mp (Player ''Hero'')
   \<and> special_move (Player ''Hero'') test_golem (fixed_rng 10 0) =
       (True, (Player ''Hero'')\<lparr>mp := 35\<rparr>, test_golem, fixed_rng 10 0)"
  using special_move_unknown_class [of "Player ''Hero''" test_golem "fixed_rng 10 0"]
  by (simp add: Player_def)

subsection \<open>The attacks\<close>

text \<open>
  C2. \<open>Player.attack\<close>, for stats of ordinary size (agility up to \<open>2^53\<close>, base damage
  up to \<open>2^50\<close> in absolute value): the base damage is strength + randint(-2, 5), the
  roll lying between -2 and 5; when the draw of \<open>random()\<close> is below the float
  agility * 0.015 the damage is int(base * 1.8), which is \<open>9 * base / 5\<close> truncated
  toward zero; the damage is at least 1; the target's health becomes
  \<open>max(0, health - damage)\<close>. With strength 6 and roll 2 a target of 50 is left at 42
  without a critical hit and at 36 with one.
\<close>

theorem player_attack_damage:
  assumes "\<bar>stats.agility (stats self)\<bar> \<le> 2 ^ 53"
    and "\<bar>stats.strength (stats self) + fst (randint (- 2) 5 g)\<bar> \<le> 2 ^ 50"
  shows "player_attack self target g =
    (let r_int = fst (randint (- 2) 5 g);
         r_float = random_draws g (random_count g);
         base = stats.strength (stats self) + r_int;
         damage = (if r_float < round_double (of_int (stats.agility (stats self)) * float_0_015)
                   then sgn base * (9 * \<bar>base\<bar> div 5) else base)
     in Inr (target\<lparr>enemy.hp := max 0 (enemy.hp target - max 1 damage)\<rparr>,
             g\<lparr>randint_count := Suc (randint_count g), random_count := Suc (random_count g)\<rparr>))
    \<and> - 2 \<le> fst (randint (- 2) 5 g) \<and> fst (randint (- 2) 5 g) \<le> 5"
proof -
  note c = int_mul_float_finite [OF assms(1) float_0_015_le_2]
  note d = int_times_1_8 [OF assms(2)]
  show ?thesis
    using d randint_range [of "- 2" 5 g]
    by (simp add: player_attack_def c randint_def random_def Let_def enemy_take_damage_def
        max_def)
qed

theorem player_attack_damage_witness:
  "\<bar>stats.agility (stats test_hero)\<bar> \<le> 2 ^ 53
   \<and> \<bar>stats.strength (stats test_hero) + fst (randint (- 2) 5 (fixed_rng 2 (9 / 10)))\<bar> \<le> 2 ^ 50
   \<and> \<bar>stats.strength (stats test_hero) + fst (randint (- 2) 5 (fixed_rng 2 0))\<bar> \<le> 2 ^ 50
   \<and> fst (randint (- 2) 5 (fixed_rng 2 0)) = 2
   \<and> player_attack test_hero test_golem (fixed_rng 2 (9 / 10)) =
       Inr (test_golem\<lparr>enemy.hp := 42\<rparr>,
            (fixed_rng 2 (9 / 10))\<lparr>randint_count := 1, random_count := 1\<rparr>)
   \<and> player_attack test_hero test_golem (fixed_rng 2 0) =
       Inr (test_golem\<lparr>enemy.hp := 36\<rparr>,
            (fixed_rng 2 0)\<lparr>randint_count := 1, random_count := 1\<rparr>)"
  using player_attack_damage [of test_hero "fixed_rng 2 (9 / 10)" test_golem]
    player_attack_damage [of test_hero "fixed_rng 2 0" test_golem]
  by (simp add: test_hero_simps test_golem_def Enemy_def fixed_rng_def crit_chance_10
      randint_def)

text \<open>
  C3. \<open>Enemy.attack\<close>: against a defending player the damage is
  (strength + randint(1, 4)) // 2, the roll lying between 1 and 4, and \<open>random()\<close> is not
  called. Against a player who is not defending (agility up to \<open>2^53\<close>), a draw of
  \<open>random()\<close> below the float agility * 0.01 returns with the player unchanged and no
  call of \<open>randint\<close>; otherwise the damage is strength + randint(1, 6), the roll lying
  between 1 and 6. Strength 10 and roll 4 against a defending player deal 7.
\<close>

theorem enemy_attack_damage:
  "(is_defending target \<longrightarrow>
      enemy_attack self target g =
        Inr (target\<lparr>player.hp := max 0 (player.hp target
               - (enemy.strength self + fst (randint 1 4 g)) div 2)\<rparr>,
             g\<lparr>randint_count := Suc (randint_count g)\<rparr>))
   \<and> (\<not> is_defending target \<and> \<bar>stats.agility (stats target)\<bar> \<le> 2 ^ 53 \<longrightarrow>
      enemy_attack self target g =
        (if random_draws g (random_count g)
              < round_double (of_int (stats.agility (stats target)) * float_0_01)
         then Inr (target, g\<lparr>random_count := Suc (random_count g)\<rparr>)
         else Inr (target\<lparr>player.hp := max 0 (player.hp target
                     - (enemy.strength self + fst (randint 1 6 g)))\<rparr>,
                   g\<lparr>randint_count := Suc (randint_count g),
                     random_count := Suc (random_count g)\<rparr>)))
   \<and> 1 \<le> fst (randint 1 4 g) \<and> fst (randint 1 4 g) \<le> 4
   \<and> 1 \<le> fst (randint 1 6 g) \<and> fst (randint 1 6 g) \<le> 6"
proof -
  let ?g1 = "g\<lparr>random_count := Suc (random_count g)\<rparr>"
  have "enemy_attack self target g =
      (if is_defending target then
         Inr (player_take_damage target ((enemy.strength self + fst (randint 1 4 g)) div 2),
              snd (randint 1 4 g))
       else case int_mul_float (stats.agility (stats target)) float_0_01 of
           Inl err \<Rightarrow> Inl err
         | Inr dodge_chance \<Rightarrow>
             if float_lt (Finite (random_draws g (random_count g))) dodge_chance
             then Inr (target, ?g1)
             else Inr (player_take_damage target (enemy.strength self + fst (randint 1 6 ?g1)),
                       snd (randint 1 6 ?g1)))"
    by (simp add: enemy_attack_def random_def split: prod.splits sum.splits)
  moreover have "fst (randint 1 6 ?g1) = fst (randint 1 6 g)"
    by (simp add: randint_def)
  ultimately show ?thesis
    using randint_range [of 1 4 g] randint_range [of 1 6 g]
    by (simp add: randint_state player_take_damage_def Let_def max_def
        int_mul_float_finite [OF _ float_0_01_le_2])
qed

theorem enemy_attack_damage_witness:
  "is_defending (test_hero\<lparr>is_defending := True\<rparr>)
   \<and> fst (randint 1 4 (fixed_rng 4 (9 / 10))) = 4
   \<and> enemy_attack test_golem (test_hero\<lparr>is_defending := True\<rparr>) (fixed_rng 4 (9 / 10)) =
       Inr (test_hero\<lparr>is_defending := True, player.hp := 73\<rparr>,
            (fixed_rng 4 (9 / 10))\<lparr>randint_count := 1\<rparr>)
   \<and> \<not> is_defending test_hero \<and> \<bar>stats.agility (stats test_hero)\<bar> \<le> 2 ^ 53
   \<and> enemy_attack test_golem test_hero (fixed_rng 4 (9 / 10)) =
       Inr (test_hero\<lparr>player.hp := 66\<rparr>,
            (fixed_rng 4 (9 / 10))\<lparr>randint_count := 1, random_count := 1\<rparr>)
   \<and> enemy_attack test_golem test_hero (fixed_rng 4 0) =
       Inr (test_hero, (fixed_rng 4 0)\<lparr>random_count := 1\<rparr>)"
  using enemy_attack_damage [of "test_hero\<lparr>is_defending := True\<rparr>" test_golem "fixed_rng 4 (9 / 10)"]
    enemy_attack_damage [of test_hero test_golem "fixed_rng 4 (9 / 10)"]
    enemy_attack_damage [of test_hero test_golem "fixed_rng 4 0"]
  by (simp add: test_hero_simps test_golem_def Enemy_def fixed_rng_def dodge_chance_10
      randint_def)

subsection \<open>The combat loop\<close>






end
